theory Spec2Isabelle
  imports Main "HOL-Library.Word"
begin

section \<open>Values shared by the service modules\<close>

text \<open>
  Exceptions of the Python code are values. \<open>ValueError\<close> carries its message, as the
  source raises it with one; \<open>UnicodeDecodeError\<close> is what \<open>bytes.decode('utf-8')\<close>
  raises; \<open>AttributeError\<close> is a read of an attribute that was never set;
  \<open>LibraryError\<close> stands for any exception that comes out of a third-party
  client (PyPDF2, the Qdrant client, the LangChain chain, tiktoken).
\<close>

datatype error =
  ValueError string | UnicodeDecodeError | AttributeError string | LibraryError string

text \<open>
  A Python dictionary with string keys, as the result dictionaries of the service are:
  an association list, keys in the order the source writes them.
\<close>

datatype jvalue = Str string | Num int

type_synonym dict = "(string \<times> jvalue) list"


text \<open>
  A Python \<open>str\<close> that holds document or query text is a list of Unicode code points.
  File names, media types and configuration values are \<open>string\<close>s: the model takes
  them in Latin-1, where \<open>str.lower\<close> is the function \<open>lower\<close> below.
\<close>

type_synonym ustring = "nat list"

type_synonym bytes = "8 word list"

definition ustr :: "string \<Rightarrow> ustring" where
  "ustr s = map of_char s"

definition lower_char :: "char \<Rightarrow> char" where
  "lower_char c =
     (let n = (of_char c :: nat) in
      if (65 \<le> n \<and> n \<le> 90) \<or> (192 \<le> n \<and> n \<le> 222 \<and> n \<noteq> 215)
      then char_of (n + 32) else c)"

definition lower :: "string \<Rightarrow> string" where
  "lower s = map lower_char s"

text \<open>\<open>s.endswith(suffix)\<close> and \<open>sub in s\<close> on strings.\<close>

definition endswith :: "string \<Rightarrow> string \<Rightarrow> bool" where
  "endswith s suffix =
     (length suffix \<le> length s \<and> drop (length s - length suffix) s = suffix)"

fun contains :: "string \<Rightarrow> string \<Rightarrow> bool" where
  "contains [] sub = (sub = [])"
| "contains (c # cs) sub = (take (length sub) (c # cs) = sub \<or> contains cs sub)"

text \<open>
  \<open>str.isspace\<close> on one code point, and \<open>str.strip()\<close>, which removes the code points
  that satisfy it from both ends.
\<close>

definition isspace :: "nat \<Rightarrow> bool" where
  "isspace c =
     ((9 \<le> c \<and> c \<le> 13) \<or> (28 \<le> c \<and> c \<le> 32) \<or> c = 133 \<or> c = 160 \<or> c = 5760
      \<or> (8192 \<le> c \<and> c \<le> 8202) \<or> c = 8232 \<or> c = 8233 \<or> c = 8239 \<or> c = 8287
      \<or> c = 12288)"

definition strip :: "ustring \<Rightarrow> ustring" where
  "strip s = rev (dropWhile isspace (rev (dropWhile isspace s)))"

text \<open>
  \<open>bytes.decode('utf-8')\<close> with the default strict error handling: well-formed UTF-8
  only (no overlong form, no surrogate, nothing above U+10FFFF). \<open>None\<close> is the
  \<open>UnicodeDecodeError\<close>.
\<close>

definition continuation :: "nat \<Rightarrow> bool" where
  "continuation b = (128 \<le> b \<and> b \<le> 191)"

fun utf8_code_points :: "nat list \<Rightarrow> ustring option" where
  "utf8_code_points [] = Some []"
| "utf8_code_points (b # bs) =
     (if b < 128 then map_option ((#) b) (utf8_code_points bs)
      else if 194 \<le> b \<and> b \<le> 223 then
        (case bs of
           b1 # r \<Rightarrow>
             if continuation b1
             then map_option ((#) ((b - 192) * 64 + (b1 - 128))) (utf8_code_points r)
             else None
         | _ \<Rightarrow> None)
      else if 224 \<le> b \<and> b \<le> 239 then
        (case bs of
           b1 # b2 # r \<Rightarrow>
             if (if b = 224 then 160 else 128) \<le> b1 \<and> b1 \<le> (if b = 237 then 159 else 191)
                \<and> continuation b2
             then map_option ((#) ((b - 224) * 4096 + (b1 - 128) * 64 + (b2 - 128)))
                    (utf8_code_points r)
             else None
         | _ \<Rightarrow> None)
      else if 240 \<le> b \<and> b \<le> 244 then
        (case bs of
           b1 # b2 # b3 # r \<Rightarrow>
             if (if b = 240 then 144 else 128) \<le> b1 \<and> b1 \<le> (if b = 244 then 143 else 191)
                \<and> continuation b2 \<and> continuation b3
             then map_option
                    ((#) ((b - 240) * 262144 + (b1 - 128) * 4096 + (b2 - 128) * 64 + (b3 - 128)))
                    (utf8_code_points r)
             else None
         | _ \<Rightarrow> None)
      else None)"

definition decode_utf8 :: "bytes \<Rightarrow> error + ustring" where
  "decode_utf8 file_content =
     (case utf8_code_points (map unat file_content) of
        None \<Rightarrow> Inl UnicodeDecodeError
      | Some s \<Rightarrow> Inr s)"

section \<open>config.py\<close>

text \<open>
  The settings object, with the fields the service reads. The sampling temperature, a
  float that is only handed on to the model constructors, is left out.
\<close>

record settings =
  llm_provider :: string
  openai_api_key :: string
  openai_model :: string
  groq_api_key :: string
  groq_model :: string
  ollama_base_url :: string
  ollama_model :: string
  embedding_provider :: string
  embedding_model :: string
  hf_embedding_model :: string
  vector_db :: string
  qdrant_url :: string
  qdrant_api_key :: string
  qdrant_collection_name :: string
  chunk_size :: int
  chunk_overlap :: int
  top_k :: int
  max_tokens :: int

text \<open>The defaults of \<open>Settings\<close>, that is, the settings under an empty environment.\<close>

definition default_settings :: settings where
  "default_settings =
     \<lparr>llm_provider = ''openai'', openai_api_key = [], openai_model = ''gpt-4'',
      groq_api_key = [], groq_model = ''llama-3.1-70b-versatile'',
      ollama_base_url = ''http://host.docker.internal:11434'', ollama_model = ''llama3.1'',
      embedding_provider = ''openai'', embedding_model = ''text-embedding-3-small'',
      hf_embedding_model = ''all-MiniLM-L6-v2'',
      vector_db = ''qdrant'', qdrant_url = ''http://localhost:6333'', qdrant_api_key = [],
      qdrant_collection_name = ''customer_support_docs'',
      chunk_size = 1000, chunk_overlap = 200, top_k = 5, max_tokens = 500\<rparr>"

section \<open>The third-party libraries\<close>

text \<open>
  What the service constructs from the libraries: an embedding handle, a language-model
  handle (each remembers the arguments it was built with), and the parameters of a
  Qdrant collection.
\<close>

datatype embeddings = OpenAIEmbeddings string string | HuggingFaceEmbeddings string

datatype llm =
  ChatOpenAI string string int | ChatGroq string string int | Ollama string string

text \<open>The model a language-model handle was built with, which is the one it calls.\<close>

fun llm_model :: "llm \<Rightarrow> string" where
  "llm_model (ChatOpenAI key m n) = m"
| "llm_model (ChatGroq key m n) = m"
| "llm_model (Ollama url m) = m"

text \<open>A Qdrant client object: the URL and, when one is configured, the API key.\<close>

datatype qdrant_client = QdrantClient string "string option"

datatype distance = COSINE | EUCLID | DOT | MANHATTAN

datatype vector_params = VectorParams (size_of: nat) (distance_of: distance)

record metadata =
  source :: string
  doc_id :: string
  chunk_index :: nat
  total_chunks :: nat

text \<open>
  The libraries themselves are not part of the repository. The service is modelled
  over their operations, collected in one record; \<open>'s\<close> is the state of the Qdrant
  server behind the client.
  \<^item> \<open>GROQ_AVAILABLE\<close>, \<open>OLLAMA_AVAILABLE\<close>: whether the optional imports succeeded;
  \<^item> \<open>pdf_page_texts\<close>: PyPDF2, the extracted text of each page in order, or the
    exception of the reader;
  \<^item> \<open>text_splitter_init\<close>: the constructor of \<open>RecursiveCharacterTextSplitter\<close> on a
    chunk size and an overlap; \<open>Some msg\<close> when it raises \<open>ValueError\<close> with that
    message, which the library does for an overlap larger than the size;
  \<^item> \<open>split_text\<close>: the splitter built with a chunk size and an overlap, applied to a
    text;
  \<^item> \<open>get_collections\<close> (the names of the collections), \<open>create_collection\<close>: the
    Qdrant client;
  \<^item> \<open>add_texts\<close>: LangChain's Qdrant wrapper, which embeds the texts and upserts them
    into the named collection; it may fail after changing the store;
  \<^item> \<open>qa_chain\<close>: the RetrievalQA chain over a language model, an embedding handle, a
    collection and \<open>k\<close>, run on a query: the answer and the page contents of the source
    documents;
  \<^item> \<open>encoding_for_model\<close>: tiktoken; \<open>None\<close> when it raises for the model name, and
    an encoder is \<open>None\<close> on a text it raises on;
  \<^item> \<open>openai_client_init\<close>: the constructor of the OpenAI client on an API key.
\<close>

record 's env =
  GROQ_AVAILABLE :: bool
  OLLAMA_AVAILABLE :: bool
  pdf_page_texts :: "bytes \<Rightarrow> error + ustring list"
  text_splitter_init :: "int \<Rightarrow> int \<Rightarrow> string option"
  split_text :: "int \<Rightarrow> int \<Rightarrow> ustring \<Rightarrow> ustring list"
  get_collections :: "'s \<Rightarrow> error + string list"
  create_collection :: "string \<Rightarrow> vector_params \<Rightarrow> 's \<Rightarrow> error + 's"
  add_texts ::
    "embeddings \<Rightarrow> string \<Rightarrow> ustring list \<Rightarrow> metadata list \<Rightarrow> 's \<Rightarrow> (error + unit) \<times> 's"
  qa_chain ::
    "llm \<Rightarrow> embeddings \<Rightarrow> string \<Rightarrow> int \<Rightarrow> ustring \<Rightarrow> 's \<Rightarrow> error + (ustring \<times> ustring list)"
  encoding_for_model :: "string \<Rightarrow> (ustring \<Rightarrow> nat list option) option"
  openai_client_init :: "string \<Rightarrow> error + unit"

section \<open>ingest.py\<close>

text \<open>
  The ingestor object: the embedding handle, the chunk size and overlap its text
  splitter was built with, and the Qdrant client, which the constructor sets only
  when the configured store is Qdrant.
\<close>

record ingestor =
  ing_embeddings :: embeddings
  ing_chunk_size :: int
  ing_chunk_overlap :: int
  ing_qdrant_client :: "qdrant_client option"

record ingest_result =
  chunk_count :: nat
  vector_store_id :: string
  filename_of :: string

text \<open>
  \<open>_initialize_embeddings\<close>, which \<open>ingest.py\<close> and \<open>query.py\<close> both define with the
  same body. An absent key is the empty string (\<open>not settings.openai_api_key\<close>).
\<close>

definition initialize_embeddings :: "settings \<Rightarrow> error + embeddings" where
  "initialize_embeddings st =
     (let provider = lower (embedding_provider st) in
      if provider = ''openai'' then
        if openai_api_key st = []
        then Inl (ValueError ''OpenAI API key required for OpenAI embeddings'')
        else Inr (OpenAIEmbeddings (openai_api_key st) (embedding_model st))
      else if provider = ''huggingface'' then
        Inr (HuggingFaceEmbeddings (hf_embedding_model st))
      else Inl (ValueError (''Unknown embedding provider: '' @ provider)))"

text \<open>
  \<open>_ensure_collection_exists\<close>. The body of its \<open>try\<close> is \<open>ensure_collection_try\<close>;
  the method catches every exception of that body, logs it and returns normally.
  \<open>vector_size\<close> is the size it chooses for a new collection; the provider name is
  compared as it is configured here, not in lower case.
\<close>

definition vector_size :: "settings \<Rightarrow> nat" where
  "vector_size st =
     (if embedding_provider st = ''openai'' then 1536
      else if embedding_provider st = ''huggingface'' then 384
      else 1536)"

definition ensure_collection_try :: "'s env \<Rightarrow> settings \<Rightarrow> 's \<Rightarrow> error + 's" where
  "ensure_collection_try env st s =
     (case get_collections env s of
        Inl e \<Rightarrow> Inl e
      | Inr collection_names \<Rightarrow>
          if qdrant_collection_name st \<notin> set collection_names then
            create_collection env (qdrant_collection_name st)
              (VectorParams (vector_size st) COSINE) s
          else Inr s)"

definition ensure_collection_exists :: "'s env \<Rightarrow> settings \<Rightarrow> 's \<Rightarrow> (error + unit) \<times> 's" where
  "ensure_collection_exists env st s =
     (case ensure_collection_try env st s of
        Inl e \<Rightarrow> (Inr (), s)
      | Inr s' \<Rightarrow> (Inr (), s'))"

text \<open>
  \<open>DocumentIngestor.__init__\<close>, statement by statement: the embedding handle; the
  text splitter, whose constructor may raise; then, for Qdrant, the client object
  (with the API key when one is configured) and \<open>_ensure_collection_exists\<close>.
  Building the client object sends no request whose failure raises; the first request
  to the store is the one of \<open>_ensure_collection_exists\<close>.
\<close>

definition new_qdrant_client :: "settings \<Rightarrow> qdrant_client" where
  "new_qdrant_client st =
     (if qdrant_api_key st \<noteq> [] then QdrantClient (qdrant_url st) (Some (qdrant_api_key st))
      else QdrantClient (qdrant_url st) None)"

definition DocumentIngestor_init :: "'s env \<Rightarrow> settings \<Rightarrow> 's \<Rightarrow> (error + ingestor) \<times> 's" where
  "DocumentIngestor_init env st s =
     (case initialize_embeddings st of
        Inl e \<Rightarrow> (Inl e, s)
      | Inr emb \<Rightarrow>
          (case text_splitter_init env (chunk_size st) (chunk_overlap st) of
             Some msg \<Rightarrow> (Inl (ValueError msg), s)
           | None \<Rightarrow>
               if vector_db st = ''qdrant'' then
                 (let self = \<lparr>ing_embeddings = emb, ing_chunk_size = chunk_size st,
                              ing_chunk_overlap = chunk_overlap st,
                              ing_qdrant_client = Some (new_qdrant_client st)\<rparr>
                  in case ensure_collection_exists env st s of
                       (Inl e, s') \<Rightarrow> (Inl e, s')
                     | (Inr u, s') \<Rightarrow> (Inr self, s'))
               else (Inr \<lparr>ing_embeddings = emb, ing_chunk_size = chunk_size st,
                          ing_chunk_overlap = chunk_overlap st,
                          ing_qdrant_client = None\<rparr>, s)))"

text \<open>\<open>_extract_from_pdf\<close>: the page texts, each followed by a newline.\<close>

definition extract_from_pdf :: "'s env \<Rightarrow> bytes \<Rightarrow> error + ustring" where
  "extract_from_pdf env file_content =
     (case pdf_page_texts env file_content of
        Inl e \<Rightarrow> Inl e
      | Inr pages \<Rightarrow> Inr (concat (map (\<lambda>page. page @ [10]) pages)))"

text \<open>\<open>_extract_text\<close>: the dispatch on the file name and the media type.\<close>

definition pdf_input :: "string \<Rightarrow> string \<Rightarrow> bool" where
  "pdf_input filename file_type =
     (endswith (lower filename) ''.pdf'' \<or> contains file_type ''pdf'')"

definition text_suffix :: "string \<Rightarrow> bool" where
  "text_suffix filename =
     (endswith (lower filename) ''.txt'' \<or> endswith (lower filename) ''.md''
      \<or> endswith (lower filename) ''.markdown'' \<or> endswith (lower filename) ''.csv'')"

definition extract_text :: "'s env \<Rightarrow> bytes \<Rightarrow> string \<Rightarrow> string \<Rightarrow> error + ustring" where
  "extract_text env file_content filename file_type =
     (if pdf_input filename file_type then extract_from_pdf env file_content
      else if text_suffix filename then decode_utf8 file_content
      else (case decode_utf8 file_content of
              Inl e \<Rightarrow> Inl (ValueError (''Unsupported file type: '' @ file_type))
            | Inr s \<Rightarrow> Inr s))"

text \<open>
  \<open>ingest\<close>, in the two stages of its body. \<open>prepare_chunks\<close> is everything before the
  store is touched: extraction, the check for an empty text, and the split.
  \<open>ingest\<close> then takes the fresh document identifier (\<open>uuid4\<close>, an input of the
  model), builds one metadata dictionary per chunk and, when the configured store is
  Qdrant, hands chunks and metadata to \<open>add_texts\<close> (the wrapper around the
  ingestor's client). The \<open>except\<close> of the method only
  logs and raises again.
\<close>

definition prepare_chunks ::
  "'s env \<Rightarrow> ingestor \<Rightarrow> bytes \<Rightarrow> string \<Rightarrow> string \<Rightarrow> error + ustring list" where
  "prepare_chunks env self file_content filename file_type =
     (case extract_text env file_content filename file_type of
        Inl e \<Rightarrow> Inl e
      | Inr doc \<Rightarrow>
          if doc = [] \<or> length (strip doc) = 0
          then Inl (ValueError ''No text could be extracted from the document'')
          else Inr (split_text env (ing_chunk_size self) (ing_chunk_overlap self) doc))"

definition chunk_metadatas :: "string \<Rightarrow> string \<Rightarrow> nat \<Rightarrow> metadata list" where
  "chunk_metadatas filename uuid n =
     map (\<lambda>i. \<lparr>source = filename, doc_id = uuid, chunk_index = i, total_chunks = n\<rparr>) [0..<n]"

definition ingest ::
  "'s env \<Rightarrow> settings \<Rightarrow> ingestor \<Rightarrow> string \<Rightarrow> bytes \<Rightarrow> string \<Rightarrow> string \<Rightarrow> 's
     \<Rightarrow> (error + ingest_result) \<times> 's" where
  "ingest env st self uuid file_content filename file_type s =
     (case prepare_chunks env self file_content filename file_type of
        Inl e \<Rightarrow> (Inl e, s)
      | Inr chunks \<Rightarrow>
          (let metadatas = chunk_metadatas filename uuid (length chunks);
               res = \<lparr>chunk_count = length chunks, vector_store_id = uuid,
                      filename_of = filename\<rparr>
           in if vector_db st = ''qdrant'' then
                (case add_texts env (ing_embeddings self) (qdrant_collection_name st)
                        chunks metadatas s of
                   (Inl e, s') \<Rightarrow> (Inl e, s')
                 | (Inr u, s') \<Rightarrow> (Inr res, s'))
              else (Inr res, s)))"

section \<open>query.py\<close>

text \<open>
  The query engine: its embedding handle, its language model, and the collection of
  its vector store, which \<open>_initialize_vector_store\<close> sets only when the configured
  store is Qdrant.
\<close>

record engine =
  eng_embeddings :: embeddings
  eng_llm :: llm
  eng_vector_store :: "string option"

record query_result =
  response :: ustring
  context_docs :: "ustring list"
  model :: string
  tokens_used :: int

definition initialize_llm :: "'s env \<Rightarrow> settings \<Rightarrow> error + llm" where
  "initialize_llm env st =
     (let provider = lower (llm_provider st) in
      if provider = ''openai'' then
        if openai_api_key st = []
        then Inl (ValueError
               ''OpenAI API key required. Get one at https://platform.openai.com/api-keys'')
        else Inr (ChatOpenAI (openai_api_key st) (openai_model st) (max_tokens st))
      else if provider = ''groq'' then
        if \<not> GROQ_AVAILABLE env
        then Inl (ValueError ''Groq not installed. Run: pip install langchain-groq'')
        else if groq_api_key st = []
        then Inl (ValueError ''Groq API key required. Get FREE key at https://console.groq.com'')
        else Inr (ChatGroq (groq_api_key st) (groq_model st) (max_tokens st))
      else if provider = ''ollama'' then
        if \<not> OLLAMA_AVAILABLE env
        then Inl (ValueError ''Ollama support not available'')
        else Inr (Ollama (ollama_base_url st) (ollama_model st))
      else Inl (ValueError
             (''Unknown LLM provider: '' @ provider @ ''. Choose: openai, groq, or ollama'')))"

definition RAGQueryEngine_init :: "'s env \<Rightarrow> settings \<Rightarrow> error + engine" where
  "RAGQueryEngine_init env st =
     (case initialize_embeddings st of
        Inl e \<Rightarrow> Inl e
      | Inr emb \<Rightarrow>
          (case initialize_llm env st of
             Inl e \<Rightarrow> Inl e
           | Inr l \<Rightarrow>
               Inr \<lparr>eng_embeddings = emb, eng_llm = l,
                    eng_vector_store =
                      (if vector_db st = ''qdrant'' then Some (qdrant_collection_name st)
                       else None)\<rparr>))"

text \<open>
  \<open>_estimate_tokens\<close>. The encoder is looked up for \<open>settings.openai_model\<close>. Any
  exception inside the \<open>try\<close> (no encoder for the name, or an encoder that raises on
  one of the texts) ends in the \<open>except\<close>, which returns 0.
\<close>

definition estimate_tokens :: "'s env \<Rightarrow> settings \<Rightarrow> ustring \<Rightarrow> ustring \<Rightarrow> ustring list \<Rightarrow> int" where
  "estimate_tokens env st query_text response_text ctx =
     (case encoding_for_model env (openai_model st) of
        None \<Rightarrow> 0
      | Some encode \<Rightarrow>
          (case (encode query_text, encode response_text, those (map encode ctx)) of
             (Some q, Some r, Some cs) \<Rightarrow>
               (let query_tokens = int (length q);
                    response_tokens = int (length r);
                    context_tokens = sum_list (map (\<lambda>c. int (length c)) cs)
                in query_tokens + response_tokens + context_tokens + 100)
           | _ \<Rightarrow> 0))"

text \<open>
  For stating what the estimate is: the number of tokens of a text under an encoder,
  and the fallback as the specification words it, the character count of the query,
  the answer and the chunks divided by an average token length.
\<close>

definition token_count :: "(ustring \<Rightarrow> nat list option) \<Rightarrow> ustring \<Rightarrow> int" where
  "token_count encode s = (case encode s of None \<Rightarrow> 0 | Some ts \<Rightarrow> int (length ts))"

definition spec_fallback_estimate :: "nat \<Rightarrow> ustring \<Rightarrow> ustring \<Rightarrow> ustring list \<Rightarrow> int" where
  "spec_fallback_estimate avg_token_length query_text response_text ctx =
     int ((length query_text + length response_text + sum_list (map length ctx))
          div avg_token_length)"

text \<open>
  \<open>query\<close>. The chain is built from the engine's language model and retriever and run
  on the query; the context is the page content of each source document it returns.
  The \<open>except\<close> of the method only logs and raises again.
\<close>

definition query ::
  "'s env \<Rightarrow> settings \<Rightarrow> engine \<Rightarrow> ustring \<Rightarrow> string \<Rightarrow> int \<Rightarrow> 's \<Rightarrow> error + query_result" where
  "query env st self query_text session_id k s =
     (case eng_vector_store self of
        None \<Rightarrow> Inl (AttributeError ''vector_store'')
      | Some collection \<Rightarrow>
          (case qa_chain env (eng_llm self) (eng_embeddings self) collection k query_text s of
             Inl e \<Rightarrow> Inl e
           | Inr (result, source_documents) \<Rightarrow>
               (let ctx = source_documents;
                    tokens = estimate_tokens env st query_text result ctx
                in Inr \<lparr>response = result, context_docs = ctx, model = openai_model st,
                        tokens_used = tokens\<rparr>)))"

section \<open>app.py\<close>

text \<open>
  \<open>RetrainManager.__init__\<close> (\<open>retrain.py\<close>) builds an OpenAI client from the
  configured key.
\<close>

definition RetrainManager_init :: "'s env \<Rightarrow> settings \<Rightarrow> error + unit" where
  "RetrainManager_init env st = openai_client_init env (openai_api_key st)"

text \<open>
  The module builds its components when it is loaded, before any route exists: first
  the ingestor, then the query engine, then the retrain manager. An exception of any
  of the constructors ends the load.
\<close>

record app =
  document_ingestor :: ingestor
  query_engine :: engine

definition startup :: "'s env \<Rightarrow> settings \<Rightarrow> 's \<Rightarrow> (error + app) \<times> 's" where
  "startup env st s =
     (case DocumentIngestor_init env st s of
        (Inl e, s') \<Rightarrow> (Inl e, s')
      | (Inr ing, s') \<Rightarrow>
          (case RAGQueryEngine_init env st of
             Inl e \<Rightarrow> (Inl e, s')
           | Inr eng \<Rightarrow>
               (case RetrainManager_init env st of
                  Inl e \<Rightarrow> (Inl e, s')
                | Inr u \<Rightarrow> (Inr \<lparr>document_ingestor = ing, query_engine = eng\<rparr>, s'))))"

section \<open>retrain.py\<close>

text \<open>
  \<open>_collect_training_data\<close>: the source builds an empty list and returns it, whatever
  \<open>min_samples\<close> is.
\<close>

definition collect_training_data :: "int \<Rightarrow> dict list" where
  "collect_training_data min_samples = []"

text \<open>\<open>sample.get(key, "")\<close> on a sample dictionary.\<close>

definition get_or_empty :: "dict \<Rightarrow> string \<Rightarrow> jvalue" where
  "get_or_empty sample k = (case map_of sample k of None \<Rightarrow> Str [] | Some v \<Rightarrow> v)"

text \<open>\<open>_format_for_finetuning\<close>: one list of three role/content messages per sample.\<close>

definition format_for_finetuning :: "dict list \<Rightarrow> (dict list) list" where
  "format_for_finetuning training_data =
     map (\<lambda>sample.
            [[(''role'', Str ''system''),
              (''content'', Str ''You are a helpful AI customer support assistant.'')],
             [(''role'', Str ''user''), (''content'', get_or_empty sample ''query'')],
             [(''role'', Str ''assistant''), (''content'', get_or_empty sample ''response'')]])
         training_data"

text \<open>
  \<open>RetrainManager.retrain\<close>, with the method that collects the samples as the
  parameter \<open>collect\<close> (the source calls \<open>self._collect_training_data\<close>). Nothing in
  the body raises on a list of dictionaries and an integer threshold, so the
  \<open>except\<close> branch (status \<open>failed\<close>) is not reached from these inputs.
\<close>

definition retrain_with :: "(int \<Rightarrow> dict list) \<Rightarrow> int \<Rightarrow> string option \<Rightarrow> dict" where
  "retrain_with collect feedback_threshold model_name =
     (let training_data = collect feedback_threshold in
      if int (length training_data) < feedback_threshold then
        [(''status'', Str ''skipped''),
         (''reason'', Str ''insufficient_data''),
         (''samples_collected'', Num (int (length training_data))),
         (''threshold'', Num feedback_threshold)]
      else
        (let formatted_data = format_for_finetuning training_data in
         [(''status'', Str ''initiated''),
          (''samples_used'', Num (int (length training_data))),
          (''message'', Str ''Retraining job created successfully'')]))"

definition retrain :: "int \<Rightarrow> string option \<Rightarrow> dict" where
  "retrain feedback_threshold model_name =
     retrain_with collect_training_data feedback_threshold model_name"

text \<open>Three collected feedback samples, for the scenario of the specification.\<close>

definition three_samples :: "dict list" where
  "three_samples =
     [[(''query'', Str ''q1''), (''response'', Str ''r1'')],
      [(''query'', Str ''q2''), (''response'', Str ''r2'')],
      [(''query'', Str ''q3''), (''response'', Str ''r3'')]]"

section \<open>A store in memory and sample configurations\<close>

text \<open>
  For evaluating the service on concrete inputs: a Qdrant server reduced to whether it
  answers and to its collections (name, parameters, stored texts with their metadata),
  a splitter whose constructor refuses an overlap larger than the size and that
  returns a text as one chunk, a tokenizer that knows two model names and yields one
  token per code point, a chain that answers with a fixed sentence and the first \<open>k\<close>
  stored texts, and an OpenAI client whose constructor refuses an empty key.
\<close>

record mem_store =
  reachable :: bool
  collections :: "(string \<times> vector_params \<times> (ustring \<times> metadata) list) list"

definition mem_get_collections :: "mem_store \<Rightarrow> error + string list" where
  "mem_get_collections s =
     (if reachable s then Inr (map fst (collections s))
      else Inl (LibraryError ''connection refused''))"

definition mem_create_collection ::
  "string \<Rightarrow> vector_params \<Rightarrow> mem_store \<Rightarrow> error + mem_store" where
  "mem_create_collection name vp s =
     (if \<not> reachable s then Inl (LibraryError ''connection refused'')
      else if name \<in> set (map fst (collections s))
      then Inl (LibraryError ''collection already exists'')
      else Inr (s\<lparr>collections := collections s @ [(name, vp, [])]\<rparr>))"

definition mem_add_texts ::
  "embeddings \<Rightarrow> string \<Rightarrow> ustring list \<Rightarrow> metadata list \<Rightarrow> mem_store
     \<Rightarrow> (error + unit) \<times> mem_store" where
  "mem_add_texts emb name texts metadatas s =
     (if \<not> reachable s then (Inl (LibraryError ''connection refused''), s)
      else (case map_of (collections s) name of
              None \<Rightarrow> (Inl (LibraryError ''collection not found''), s)
            | Some (vp, pts) \<Rightarrow>
                (Inr (),
                 s\<lparr>collections :=
                     map (\<lambda>(n, c). if n = name then (n, vp, pts @ zip texts metadatas)
                                    else (n, c))
                       (collections s)\<rparr>)))"

definition mem_qa_chain ::
  "llm \<Rightarrow> embeddings \<Rightarrow> string \<Rightarrow> int \<Rightarrow> ustring \<Rightarrow> mem_store
     \<Rightarrow> error + (ustring \<times> ustring list)" where
  "mem_qa_chain l emb name k query_text s =
     (if \<not> reachable s then Inl (LibraryError ''connection refused'')
      else (case map_of (collections s) name of
              None \<Rightarrow> Inl (LibraryError ''collection not found'')
            | Some (vp, pts) \<Rightarrow> Inr (ustr ''I do not know.'', take (nat k) (map fst pts))))"

definition mem_encoding_for_model :: "string \<Rightarrow> (ustring \<Rightarrow> nat list option) option" where
  "mem_encoding_for_model name =
     (if name = ''gpt-4'' \<or> name = ''gpt-3.5-turbo'' then Some (\<lambda>s. Some s) else None)"

definition mem_text_splitter_init :: "int \<Rightarrow> int \<Rightarrow> string option" where
  "mem_text_splitter_init n m =
     (if m > n then Some ''Got a larger chunk overlap than chunk size, should be smaller.''
      else None)"

definition mem_openai_client_init :: "string \<Rightarrow> error + unit" where
  "mem_openai_client_init key =
     (if key = [] then Inl (LibraryError ''The api_key client option must be set'')
      else Inr ())"

definition mem_env :: "mem_store env" where
  "mem_env =
     \<lparr>GROQ_AVAILABLE = True, OLLAMA_AVAILABLE = True,
      pdf_page_texts = (\<lambda>b. Inl (LibraryError ''not a PDF file'')),
      text_splitter_init = mem_text_splitter_init,
      split_text = (\<lambda>n m s. [s]),
      get_collections = mem_get_collections,
      create_collection = mem_create_collection,
      add_texts = mem_add_texts,
      qa_chain = mem_qa_chain,
      encoding_for_model = mem_encoding_for_model,
      openai_client_init = mem_openai_client_init\<rparr>"

definition empty_store :: mem_store where
  "empty_store = \<lparr>reachable = True, collections = []\<rparr>"

definition down_store :: mem_store where
  "down_store = \<lparr>reachable = False, collections = []\<rparr>"

text \<open>A store whose collection was created for 384-dimensional vectors.\<close>

definition store_384 :: mem_store where
  "store_384 =
     \<lparr>reachable = True,
      collections = [(''customer_support_docs'', VectorParams 384 COSINE, [])]\<rparr>"

definition openai_settings :: settings where
  "openai_settings = default_settings\<lparr>openai_api_key := ''sk-test''\<rparr>"

definition groq_settings :: settings where
  "groq_settings =
     default_settings\<lparr>llm_provider := ''groq'', groq_api_key := ''gsk-test'',
                       embedding_provider := ''huggingface''\<rparr>"

text \<open>A configuration whose model name the tokenizer library does not know.\<close>

definition custom_model_settings :: settings where
  "custom_model_settings = openai_settings\<lparr>openai_model := ''custom-model''\<rparr>"

text \<open>A configuration that names an embedding provider the service does not know.\<close>

definition cohere_settings :: settings where
  "cohere_settings = default_settings\<lparr>embedding_provider := ''cohere''\<rparr>"

definition groq_engine :: engine where
  "groq_engine =
     \<lparr>eng_embeddings = HuggingFaceEmbeddings ''all-MiniLM-L6-v2'',
      eng_llm = ChatGroq ''gsk-test'' ''llama-3.1-70b-versatile'' 500,
      eng_vector_store = Some ''customer_support_docs''\<rparr>"

text \<open>A configuration whose chunk overlap exceeds its chunk size.\<close>

definition wide_overlap_settings :: settings where
  "wide_overlap_settings = openai_settings\<lparr>chunk_size := 100, chunk_overlap := 200\<rparr>"

definition sample_ingestor :: ingestor where
  "sample_ingestor =
     \<lparr>ing_embeddings = OpenAIEmbeddings ''sk-test'' ''text-embedding-3-small'',
      ing_chunk_size = 1000, ing_chunk_overlap = 200,
      ing_qdrant_client = Some (QdrantClient ''http://localhost:6333'' None)\<rparr>"

section \<open>Retraining: the skipped outcome\<close>

lemma retrain_stub_skipped:
  "0 < t \<Longrightarrow> retrain t m =
     [(''status'', Str ''skipped''), (''reason'', Str ''insufficient_data''),
      (''samples_collected'', Num 0), (''threshold'', Num t)]"
  by (simp add: retrain_def retrain_with_def collect_training_data_def)

text \<open>
  Claim C9. Whenever the number of collected samples is below the feedback threshold,
  \<open>retrain\<close> returns a result dictionary (it does not take the \<open>failed\<close> branch) whose
  status is \<open>skipped\<close>, whose reason is the insufficient-data reason (the source's
  literal is \<open>insufficient_data\<close>) and whose \<open>samples_collected\<close> is the number of
  samples that were collected. With the collection method of the source, which always
  returns no sample, this is every call with a positive threshold
  (\<open>retrain_stub_skipped\<close>).
\<close>

theorem retrain_skipped_below_threshold:
  assumes "int (length (collect t)) < t"
  shows "map_of (retrain_with collect t m) ''status'' = Some (Str ''skipped'')
       \<and> map_of (retrain_with collect t m) ''reason'' = Some (Str ''insufficient_data'')
       \<and> map_of (retrain_with collect t m) ''samples_collected''
           = Some (Num (int (length (collect t))))
       \<and> map_of (retrain_with collect t m) ''error'' = None"
  using assms by (simp add: retrain_with_def)

theorem retrain_skipped_below_threshold_witness:
  "int (length (collect_training_data 10)) < 10
   \<and> map_of (retrain 10 None) ''status'' = Some (Str ''skipped'')
   \<and> map_of (retrain 10 None) ''reason'' = Some (Str ''insufficient_data'')
   \<and> map_of (retrain 10 None) ''samples_collected'' = Some (Num 0)
   \<and> int (length ((\<lambda>n. three_samples) (10::int))) < 10
   \<and> map_of (retrain_with (\<lambda>n. three_samples) 10 None) ''status'' = Some (Str ''skipped'')
   \<and> map_of (retrain_with (\<lambda>n. three_samples) 10 None) ''samples_collected'' = Some (Num 3)"
proof -
  have h: "int (length (collect_training_data 10)) < 10"
    by (simp add: collect_training_data_def)
  have h3: "int (length ((\<lambda>n. three_samples) (10::int))) < 10"
    by (simp add: three_samples_def)
  from retrain_skipped_below_threshold [of collect_training_data 10 None, OF h]
  have a: "map_of (retrain 10 None) ''status'' = Some (Str ''skipped'')
         \<and> map_of (retrain 10 None) ''reason'' = Some (Str ''insufficient_data'')
         \<and> map_of (retrain 10 None) ''samples_collected'' = Some (Num 0)"
    by (simp add: retrain_def collect_training_data_def)
  from retrain_skipped_below_threshold [of "\<lambda>n. three_samples" 10 None, OF h3]
  have b: "map_of (retrain_with (\<lambda>n. three_samples) 10 None) ''status'' = Some (Str ''skipped'')
         \<and> map_of (retrain_with (\<lambda>n. three_samples) 10 None) ''samples_collected''
             = Some (Num 3)"
    by (simp add: three_samples_def)
  from h a h3 b show ?thesis by blast
qed

section \<open>Text helpers\<close>

lemma dropWhile_all_iff: "(\<forall>x\<in>set (dropWhile P xs). P x) \<longleftrightarrow> (\<forall>x\<in>set xs. P x)"
  by (induction xs) auto

lemma strip_Nil_iff: "strip s = [] \<longleftrightarrow> (\<forall>c\<in>set s. isspace c)"
  by (simp add: strip_def dropWhile_eq_Nil_conv dropWhile_all_iff)

lemma blank_iff: "(doc = [] \<or> length (strip doc) = 0) \<longleftrightarrow> (\<forall>c\<in>set doc. isspace c)"
  using strip_Nil_iff [of doc] by auto

section \<open>Ingestion: failures before the store is touched\<close>

lemma prepare_chunks_blank:
  assumes "extract_text env file_content filename file_type = Inr doc"
    and "\<forall>c\<in>set doc. isspace c"
  shows "prepare_chunks env self file_content filename file_type =
           Inl (ValueError ''No text could be extracted from the document'')"
proof -
  from assms(2) have "doc = [] \<or> length (strip doc) = 0"
    by (simp only: blank_iff)
  with assms(1) show ?thesis
    by (simp add: prepare_chunks_def)
qed


lemma ingest_prepare_failure:
  "prepare_chunks env self file_content filename file_type = Inl e \<Longrightarrow>
   ingest env st self uuid file_content filename file_type s = (Inl e, s)"
  by (simp add: ingest_def)



text \<open>
  Claim C8. When the text extracted from the input is empty or has only whitespace
  code points (those of \<open>str.isspace\<close>), \<open>ingest\<close> fails with the \<open>ValueError\<close>
  "No text could be extracted from the document", which is the empty-document error of
  the service. The splitter is not run, so the call does not yield an empty chunk
  list, and the store is returned as it was: no record is written.
\<close>

theorem ingest_blank_text_is_error:
  assumes "extract_text env file_content filename file_type = Inr doc"
    and "\<forall>c\<in>set doc. isspace c"
  shows "ingest env st self uuid file_content filename file_type s =
           (Inl (ValueError ''No text could be extracted from the document''), s)
       \<and> prepare_chunks env self file_content filename file_type \<noteq> Inr []"
proof -
  have "prepare_chunks env self file_content filename file_type =
          Inl (ValueError ''No text could be extracted from the document'')"
    using assms by (rule prepare_chunks_blank)
  then show ?thesis
    by (simp add: ingest_prepare_failure)
qed

theorem ingest_blank_text_is_error_witness:
  "extract_text mem_env [0x20, 0x0A, 0x09] ''notes.txt'' ''text/plain'' = Inr [32, 10, 9]
   \<and> ingest mem_env openai_settings sample_ingestor ''id-1'' [0x20, 0x0A, 0x09] ''notes.txt''
       ''text/plain'' store_384
     = (Inl (ValueError ''No text could be extracted from the document''), store_384)"
proof -
  have x: "extract_text mem_env [0x20, 0x0A, 0x09] ''notes.txt'' ''text/plain''
             = Inr [32, 10, 9]"
    by code_simp
  have b: "\<forall>c\<in>set [32, 10, 9::nat]. isspace c"
    by (simp add: isspace_def)
  from ingest_blank_text_is_error
         [OF x b, of openai_settings sample_ingestor "''id-1''" store_384] x
  show ?thesis by simp
qed



section \<open>Construction of the ingestor\<close>

lemma ensure_collection_exists_returns: "fst (ensure_collection_exists env st s) = Inr ()"
  by (simp add: ensure_collection_exists_def split: sum.splits)

text \<open>
  The outcome of the constructor, as a function of the settings and of the splitter's
  constructor alone: neither the state of the store nor an operation of the client
  occurs on the right-hand side.
\<close>

lemma DocumentIngestor_init_result:
  "fst (DocumentIngestor_init env st s) =
     (case initialize_embeddings st of
        Inl e \<Rightarrow> Inl e
      | Inr emb \<Rightarrow>
          (case text_splitter_init env (chunk_size st) (chunk_overlap st) of
             Some msg \<Rightarrow> Inl (ValueError msg)
           | None \<Rightarrow>
               Inr \<lparr>ing_embeddings = emb, ing_chunk_size = chunk_size st,
                    ing_chunk_overlap = chunk_overlap st,
                    ing_qdrant_client =
                      (if vector_db st = ''qdrant'' then Some (new_qdrant_client st)
                       else None)\<rparr>))"
proof (cases "initialize_embeddings st")
  case (Inl e)
  then show ?thesis by (simp add: DocumentIngestor_init_def)
next
  case (Inr emb)
  show ?thesis
  proof (cases "text_splitter_init env (chunk_size st) (chunk_overlap st)")
    case (Some msg)
    with Inr show ?thesis by (simp add: DocumentIngestor_init_def)
  next
    case None
    obtain r s' where e: "ensure_collection_exists env st s = (r, s')"
      by (cases "ensure_collection_exists env st s")
    with ensure_collection_exists_returns [of env st s] have "r = Inr ()" by simp
    with e Inr None show ?thesis by (simp add: DocumentIngestor_init_def Let_def)
  qed
qed

lemma DocumentIngestor_init_error:
  assumes "fst (DocumentIngestor_init env st s) = Inl e"
  shows "initialize_embeddings st = Inl e
       \<or> (\<exists>emb msg. initialize_embeddings st = Inr emb
             \<and> text_splitter_init env (chunk_size st) (chunk_overlap st) = Some msg
             \<and> e = ValueError msg)"
  using assms unfolding DocumentIngestor_init_result
  by (auto split: sum.splits option.splits)

text \<open>
  Claim C10. Building the ingestor never fails because of the store.
  \<open>_ensure_collection_exists\<close> returns normally for every behaviour of the client,
  and when its body raises (the store does not answer, or the creation fails) the
  error is dropped and the store is left as it was. So the constructor returns the
  ingestor whenever the embedding handle and the text splitter could be built, an
  error of the constructor is always the one of \<open>_initialize_embeddings\<close> or the one
  of the splitter's constructor, and its outcome is the same for every state of the
  store and every behaviour of the client. In the witness the store is down:
  construction succeeds, and the error shows only when a later \<open>ingest\<close> reaches
  \<open>add_texts\<close>; with an overlap larger than the chunk size, construction fails in the
  splitter's constructor whether the store is down or not.
\<close>

theorem ingestor_construction_survives_store_errors:
  "fst (ensure_collection_exists env st s) = Inr ()
   \<and> (ensure_collection_try env st s = Inl e' \<longrightarrow>
        ensure_collection_exists env st s = (Inr (), s))
   \<and> (initialize_embeddings st = Inr emb
        \<and> text_splitter_init env (chunk_size st) (chunk_overlap st) = None \<longrightarrow>
        fst (DocumentIngestor_init env st s)
          = Inr \<lparr>ing_embeddings = emb, ing_chunk_size = chunk_size st,
                 ing_chunk_overlap = chunk_overlap st,
                 ing_qdrant_client =
                   (if vector_db st = ''qdrant'' then Some (new_qdrant_client st)
                    else None)\<rparr>)
   \<and> (fst (DocumentIngestor_init env st s) = Inl e \<longrightarrow>
        initialize_embeddings st = Inl e
        \<or> (\<exists>emb0 msg. initialize_embeddings st = Inr emb0
              \<and> text_splitter_init env (chunk_size st) (chunk_overlap st) = Some msg
              \<and> e = ValueError msg))
   \<and> (text_splitter_init env2 = text_splitter_init env \<longrightarrow>
        fst (DocumentIngestor_init env2 st s2) = fst (DocumentIngestor_init env st s))"
proof (intro conjI impI)
  show "fst (ensure_collection_exists env st s) = Inr ()"
    by (rule ensure_collection_exists_returns)
next
  assume "ensure_collection_try env st s = Inl e'"
  then show "ensure_collection_exists env st s = (Inr (), s)"
    by (simp add: ensure_collection_exists_def)
next
  assume "initialize_embeddings st = Inr emb
        \<and> text_splitter_init env (chunk_size st) (chunk_overlap st) = None"
  then show "fst (DocumentIngestor_init env st s)
          = Inr \<lparr>ing_embeddings = emb, ing_chunk_size = chunk_size st,
                 ing_chunk_overlap = chunk_overlap st,
                 ing_qdrant_client =
                   (if vector_db st = ''qdrant'' then Some (new_qdrant_client st)
                    else None)\<rparr>"
    by (simp add: DocumentIngestor_init_result)
next
  assume "fst (DocumentIngestor_init env st s) = Inl e"
  then show "initialize_embeddings st = Inl e
        \<or> (\<exists>emb0 msg. initialize_embeddings st = Inr emb0
              \<and> text_splitter_init env (chunk_size st) (chunk_overlap st) = Some msg
              \<and> e = ValueError msg)"
    by (rule DocumentIngestor_init_error)
next
  assume "text_splitter_init env2 = text_splitter_init env"
  then have "text_splitter_init env2 (chunk_size st) (chunk_overlap st)
               = text_splitter_init env (chunk_size st) (chunk_overlap st)"
    by simp
  then show "fst (DocumentIngestor_init env2 st s2) = fst (DocumentIngestor_init env st s)"
    by (simp only: DocumentIngestor_init_result)
qed

theorem ingestor_construction_survives_store_errors_witness:
  "ensure_collection_try mem_env openai_settings down_store
     = Inl (LibraryError ''connection refused'')
   \<and> ensure_collection_exists mem_env openai_settings down_store = (Inr (), down_store)
   \<and> fst (DocumentIngestor_init mem_env openai_settings down_store) = Inr sample_ingestor
   \<and> fst (ingest mem_env openai_settings sample_ingestor ''id-1'' [0x68, 0x69] ''a.txt''
            ''text/plain'' down_store)
       = Inl (LibraryError ''connection refused'')
   \<and> fst (DocumentIngestor_init mem_env wide_overlap_settings down_store)
       = Inl (ValueError ''Got a larger chunk overlap than chunk size, should be smaller.'')
   \<and> fst (DocumentIngestor_init mem_env wide_overlap_settings empty_store)
       = fst (DocumentIngestor_init mem_env wide_overlap_settings down_store)"
proof -
  have t: "ensure_collection_try mem_env openai_settings down_store
     = Inl (LibraryError ''connection refused'')" by code_simp
  have i: "initialize_embeddings openai_settings
             = Inr (OpenAIEmbeddings ''sk-test'' ''text-embedding-3-small'')
           \<and> text_splitter_init mem_env (chunk_size openai_settings)
               (chunk_overlap openai_settings) = None" by code_simp
  have g: "fst (ingest mem_env openai_settings sample_ingestor ''id-1'' [0x68, 0x69] ''a.txt''
            ''text/plain'' down_store) = Inl (LibraryError ''connection refused'')"
    by code_simp
  have c: "\<lparr>ing_embeddings = OpenAIEmbeddings ''sk-test'' ''text-embedding-3-small'',
            ing_chunk_size = chunk_size openai_settings,
            ing_chunk_overlap = chunk_overlap openai_settings,
            ing_qdrant_client =
              (if vector_db openai_settings = ''qdrant''
               then Some (new_qdrant_client openai_settings) else None)\<rparr> = sample_ingestor"
    by code_simp
  have w: "fst (DocumentIngestor_init mem_env wide_overlap_settings down_store)
       = Inl (ValueError ''Got a larger chunk overlap than chunk size, should be smaller.'')"
    by code_simp
  note th = ingestor_construction_survives_store_errors
         [of mem_env openai_settings down_store "LibraryError ''connection refused''"
             "OpenAIEmbeddings ''sk-test'' ''text-embedding-3-small''" UnicodeDecodeError
             mem_env down_store]
  from th t have a: "ensure_collection_exists mem_env openai_settings down_store
                       = (Inr (), down_store)"
    by blast
  from th i have "fst (DocumentIngestor_init mem_env openai_settings down_store)
          = Inr \<lparr>ing_embeddings = OpenAIEmbeddings ''sk-test'' ''text-embedding-3-small'',
                 ing_chunk_size = chunk_size openai_settings,
                 ing_chunk_overlap = chunk_overlap openai_settings,
                 ing_qdrant_client =
                   (if vector_db openai_settings = ''qdrant''
                    then Some (new_qdrant_client openai_settings) else None)\<rparr>"
    by blast
  with c have b: "fst (DocumentIngestor_init mem_env openai_settings down_store)
                    = Inr sample_ingestor"
    by simp
  from ingestor_construction_survives_store_errors
         [of mem_env wide_overlap_settings down_store "LibraryError ''connection refused''"
             "OpenAIEmbeddings ''sk-test'' ''text-embedding-3-small''" UnicodeDecodeError
             mem_env empty_store]
  have d: "fst (DocumentIngestor_init mem_env wide_overlap_settings empty_store)
       = fst (DocumentIngestor_init mem_env wide_overlap_settings down_store)"
    by blast
  from t a b g w d show ?thesis by blast
qed

section \<open>Configuration errors at construction\<close>

lemma initialize_embeddings_error:
  "initialize_embeddings st = Inl e \<Longrightarrow> \<exists>msg. e = ValueError msg"
  by (auto simp: initialize_embeddings_def Let_def split: if_splits)

lemma initialize_embeddings_fails:
  assumes "lower (embedding_provider st) \<notin> {''openai'', ''huggingface''}
         \<or> (lower (embedding_provider st) = ''openai'' \<and> openai_api_key st = [])"
  shows "\<exists>msg. initialize_embeddings st = Inl (ValueError msg)"
  using assms by (auto simp: initialize_embeddings_def Let_def)

lemma initialize_llm_fails:
  assumes "lower (llm_provider st) \<notin> {''openai'', ''groq'', ''ollama''}
         \<or> (lower (llm_provider st) = ''openai'' \<and> openai_api_key st = [])
         \<or> (lower (llm_provider st) = ''groq'' \<and> groq_api_key st = [])"
  shows "\<exists>msg. initialize_llm env st = Inl (ValueError msg)"
  using assms by (auto simp: initialize_llm_def Let_def)

lemma RAGQueryEngine_init_fails:
  assumes "(\<exists>msg. initialize_embeddings st = Inl (ValueError msg))
         \<or> (\<exists>msg. initialize_llm env st = Inl (ValueError msg))"
  shows "\<exists>msg. RAGQueryEngine_init env st = Inl (ValueError msg)"
proof (cases "initialize_embeddings st")
  case (Inl e)
  with initialize_embeddings_error [OF Inl] show ?thesis
    by (auto simp: RAGQueryEngine_init_def)
next
  case (Inr emb)
  with assms obtain msg where "initialize_llm env st = Inl (ValueError msg)" by auto
  with Inr show ?thesis by (simp add: RAGQueryEngine_init_def)
qed

lemma startup_fails:
  assumes "\<exists>msg. RAGQueryEngine_init env st = Inl (ValueError msg)"
  shows "\<exists>msg. fst (startup env st s) = Inl (ValueError msg)"
proof -
  obtain r s' where d: "DocumentIngestor_init env st s = (r, s')"
    by (cases "DocumentIngestor_init env st s")
  show ?thesis
  proof (cases r)
    case (Inl e)
    with d have "fst (DocumentIngestor_init env st s) = Inl e" by simp
    from DocumentIngestor_init_error [OF this] initialize_embeddings_error [of st e]
    obtain msg where "e = ValueError msg" by blast
    with d Inl show ?thesis by (simp add: startup_def)
  next
    case (Inr ing)
    with d assms show ?thesis by (auto simp: startup_def)
  qed
qed

text \<open>
  Claim C5. When the configured embedding provider or generation provider is not one
  the service knows (compared in lower case), or the key its provider requires is
  absent (the OpenAI key for OpenAI embeddings or the OpenAI model, the Groq key for
  Groq), building the components fails with a \<open>ValueError\<close>, the configuration error
  of the service: the constructor of the query engine raises it, and so does the load
  of the application module, which builds the components before any route is
  defined (an earlier constructor of the load that raises first, the text splitter's,
  raises a \<open>ValueError\<close> too). No request is handled by a module that did not load.
\<close>

theorem construction_fails_on_bad_configuration:
  assumes "lower (embedding_provider st) \<notin> {''openai'', ''huggingface''}
         \<or> lower (llm_provider st) \<notin> {''openai'', ''groq'', ''ollama''}
         \<or> (lower (embedding_provider st) = ''openai'' \<and> openai_api_key st = [])
         \<or> (lower (llm_provider st) = ''openai'' \<and> openai_api_key st = [])
         \<or> (lower (llm_provider st) = ''groq'' \<and> groq_api_key st = [])"
  shows "(\<exists>msg. fst (startup env st s) = Inl (ValueError msg))
       \<and> (\<exists>msg. RAGQueryEngine_init env st = Inl (ValueError msg))"
proof -
  from assms have "(\<exists>msg. initialize_embeddings st = Inl (ValueError msg))
         \<or> (\<exists>msg. initialize_llm env st = Inl (ValueError msg))"
    using initialize_embeddings_fails [of st] initialize_llm_fails [of st env] by blast
  then have "\<exists>msg. RAGQueryEngine_init env st = Inl (ValueError msg)"
    by (rule RAGQueryEngine_init_fails)
  then show ?thesis
    using startup_fails [of env st s] by blast
qed

theorem construction_fails_on_bad_configuration_witness:
  "lower (embedding_provider cohere_settings) \<notin> {''openai'', ''huggingface''}
   \<and> (\<exists>msg. fst (startup mem_env cohere_settings empty_store) = Inl (ValueError msg))
   \<and> startup mem_env cohere_settings empty_store
       = (Inl (ValueError ''Unknown embedding provider: cohere''), empty_store)"
proof -
  have h: "lower (embedding_provider cohere_settings) \<notin> {''openai'', ''huggingface''}"
    by code_simp
  have v: "startup mem_env cohere_settings empty_store
       = (Inl (ValueError ''Unknown embedding provider: cohere''), empty_store)"
    by code_simp
  from h have "(\<exists>msg. fst (startup mem_env cohere_settings empty_store) = Inl (ValueError msg))"
    using construction_fails_on_bad_configuration [of cohere_settings mem_env empty_store]
    by blast
  with h v show ?thesis by blast
qed

section \<open>Ensuring the collection\<close>

text \<open>
  Claim C2, as stated, fails. The store holds the configured collection with
  384-dimensional vectors, the configuration asks for 1536 dimensions, and
  \<open>_ensure_collection_exists\<close> returns normally and leaves the store as it is: the
  source never compares dimensions.
\<close>

theorem ensure_collection_dimension_counterexample:
  "mem_get_collections store_384 = Inr [qdrant_collection_name openai_settings]
   \<and> map_of (collections store_384) (qdrant_collection_name openai_settings)
       = Some (VectorParams 384 COSINE, [])
   \<and> vector_size openai_settings = 1536
   \<and> ensure_collection_exists mem_env openai_settings store_384 = (Inr (), store_384)"
  by code_simp

text \<open>
  Claim C2, amended. The name and the dimensionality are those of the configuration.
  When the store lists its collections and the name is not among them, the collection
  is created with cosine distance and that dimensionality. When the name is among
  them the call changes nothing and returns normally, whatever the dimensionality of
  the existing collection.
\<close>

theorem ensure_collection_creates_or_skips:
  "(get_collections env s = Inr names \<and> qdrant_collection_name st \<notin> set names
      \<and> create_collection env (qdrant_collection_name st)
            (VectorParams (vector_size st) COSINE) s = Inr s' \<longrightarrow>
      ensure_collection_exists env st s = (Inr (), s'))
   \<and> (get_collections env s = Inr names \<and> qdrant_collection_name st \<in> set names \<longrightarrow>
      ensure_collection_exists env st s = (Inr (), s))"
  by (simp add: ensure_collection_exists_def ensure_collection_try_def)

theorem ensure_collection_creates_or_skips_witness:
  "ensure_collection_exists mem_env openai_settings empty_store
     = (Inr (), \<lparr>reachable = True,
                 collections = [(''customer_support_docs'', VectorParams 1536 COSINE, [])]\<rparr>)
   \<and> ensure_collection_exists mem_env openai_settings store_384 = (Inr (), store_384)"
proof -
  have a: "get_collections mem_env empty_store = Inr []
         \<and> qdrant_collection_name openai_settings \<notin> set []
         \<and> create_collection mem_env (qdrant_collection_name openai_settings)
             (VectorParams (vector_size openai_settings) COSINE) empty_store
           = Inr \<lparr>reachable = True,
                 collections = [(''customer_support_docs'', VectorParams 1536 COSINE, [])]\<rparr>"
    by code_simp
  have b: "get_collections mem_env store_384 = Inr [''customer_support_docs'']
         \<and> qdrant_collection_name openai_settings \<in> set [''customer_support_docs'']"
    by code_simp
  from ensure_collection_creates_or_skips [of mem_env empty_store "[]" openai_settings] a
  have 1: "ensure_collection_exists mem_env openai_settings empty_store
     = (Inr (), \<lparr>reachable = True,
                 collections = [(''customer_support_docs'', VectorParams 1536 COSINE, [])]\<rparr>)"
    by blast
  from ensure_collection_creates_or_skips
         [of mem_env store_384 "[''customer_support_docs'']" openai_settings] b
  have 2: "ensure_collection_exists mem_env openai_settings store_384 = (Inr (), store_384)"
    by blast
  from 1 2 show ?thesis by blast
qed

section \<open>The token estimate\<close>

lemma those_map_Some:
  "\<forall>x\<in>set xs. f x \<noteq> None \<Longrightarrow> those (map f xs) = Some (map (\<lambda>x. the (f x)) xs)"
  by (induction xs) auto

lemma those_map_None:
  "\<exists>x\<in>set xs. f x = None \<Longrightarrow> those (map f xs) = None"
  by (induction xs) (auto split: option.splits)

lemma token_count_sum:
  "\<forall>x\<in>set xs. f x \<noteq> None \<Longrightarrow>
   sum_list (map (\<lambda>c. int (length c)) (map (\<lambda>x. the (f x)) xs))
     = sum_list (map (token_count f) xs)"
  by (induction xs) (auto simp: token_count_def)

lemma estimate_tokens_encoded:
  assumes "encoding_for_model env (openai_model st) = Some encode"
    and "\<forall>s\<in>set (q # r # ctx). encode s \<noteq> None"
  shows "estimate_tokens env st q r ctx
           = token_count encode q + token_count encode r
             + sum_list (map (token_count encode) ctx) + 100"
proof -
  from assms(2) obtain qt rt where qr: "encode q = Some qt" "encode r = Some rt"
    by auto
  from assms(2) have c: "\<forall>s\<in>set ctx. encode s \<noteq> None" by simp
  from assms(1) qr those_map_Some [OF c] token_count_sum [OF c]
  show ?thesis
    by (simp add: estimate_tokens_def token_count_def)
qed

lemma estimate_tokens_no_encoder:
  "encoding_for_model env (openai_model st) = None \<Longrightarrow> estimate_tokens env st q r ctx = 0"
  by (simp add: estimate_tokens_def)

lemma estimate_tokens_encoder_raises:
  assumes "encoding_for_model env (openai_model st) = Some encode"
    and "\<exists>s\<in>set (q # r # ctx). encode s = None"
  shows "estimate_tokens env st q r ctx = 0"
proof -
  have "encode q = None \<or> encode r = None \<or> those (map encode ctx) = None"
  proof (cases "\<exists>s\<in>set ctx. encode s = None")
    case True
    then show ?thesis by (simp add: those_map_None)
  next
    case False
    with assms(2) show ?thesis by auto
  qed
  with assms(1) show ?thesis
    by (auto simp: estimate_tokens_def split: option.splits)
qed

lemma query_tokens_used:
  "query env st self query_text session_id k s = Inr res \<Longrightarrow>
   tokens_used res = estimate_tokens env st query_text (response res) (context_docs res)"
  by (auto simp: query_def Let_def split: option.splits sum.splits prod.splits)

lemma openai_llm_model:
  "lower (llm_provider st) = ''openai'' \<Longrightarrow> initialize_llm env st = Inr l \<Longrightarrow>
   llm_model l = openai_model st"
  by (auto simp: initialize_llm_def Let_def split: if_splits)

text \<open>
  Claim C1, as stated, fails. The tokenizer library knows no encoder for the configured
  model name; the estimate is 0, not the character count divided by an average token
  length (49 characters, 12 at four characters a token).
\<close>

theorem estimate_tokens_fallback_counterexample:
  "encoding_for_model mem_env (openai_model custom_model_settings) = None
   \<and> estimate_tokens mem_env custom_model_settings (ustr ''What is the refund policy?'')
       (ustr ''Refunds take five days.'') [] = 0
   \<and> spec_fallback_estimate 4 (ustr ''What is the refund policy?'')
       (ustr ''Refunds take five days.'') [] = 12"
proof -
  have a: "encoding_for_model mem_env (openai_model custom_model_settings) = None"
    by (simp add: mem_env_def mem_encoding_for_model_def custom_model_settings_def
                  openai_settings_def default_settings_def)
  have b: "estimate_tokens mem_env custom_model_settings (ustr ''What is the refund policy?'')
       (ustr ''Refunds take five days.'') [] = 0"
    using a by (rule estimate_tokens_no_encoder)
  have c: "spec_fallback_estimate 4 (ustr ''What is the refund policy?'')
       (ustr ''Refunds take five days.'') [] = 12"
    by code_simp
  from a b c show ?thesis by blast
qed

text \<open>
  Claim C1, amended. Under the OpenAI generation provider the encoder is looked up for
  the configured generation model. When there is one and it encodes the query, the
  answer and every chunk, the estimate is the sum of their token counts plus 100.
  When there is none, or the encoder raises on one of the texts, the estimate is 0;
  in no case does the estimate raise. The token count of a completed query is this
  estimate on its query text, its answer and its context.
\<close>

theorem estimate_tokens_openai:
  assumes "lower (llm_provider st) = ''openai''" and "initialize_llm env st = Inr l"
  shows "(encoding_for_model env (llm_model l) = Some encode
            \<and> (\<forall>s\<in>set (q # r # ctx). encode s \<noteq> None) \<longrightarrow>
          estimate_tokens env st q r ctx
            = token_count encode q + token_count encode r
              + sum_list (map (token_count encode) ctx) + 100)
       \<and> (encoding_for_model env (llm_model l) = None \<longrightarrow> estimate_tokens env st q r ctx = 0)
       \<and> (encoding_for_model env (llm_model l) = Some encode
            \<and> (\<exists>s\<in>set (q # r # ctx). encode s = None) \<longrightarrow>
          estimate_tokens env st q r ctx = 0)
       \<and> (query env st self q session_id k s = Inr res \<longrightarrow>
          tokens_used res = estimate_tokens env st q (response res) (context_docs res))"
proof -
  have m: "llm_model l = openai_model st"
    using assms by (rule openai_llm_model)
  show ?thesis
    unfolding m
    using estimate_tokens_encoded [of env st encode q r ctx]
      estimate_tokens_no_encoder [of env st q r ctx]
      estimate_tokens_encoder_raises [of env st encode q r ctx]
      query_tokens_used [of env st self q session_id k s res]
    by blast
qed

theorem estimate_tokens_openai_witness:
  "lower (llm_provider openai_settings) = ''openai''
   \<and> initialize_llm mem_env openai_settings = Inr (ChatOpenAI ''sk-test'' ''gpt-4'' 500)
   \<and> estimate_tokens mem_env openai_settings (ustr ''hello'') (ustr ''hi'') [ustr ''abc''] = 110
   \<and> initialize_llm mem_env custom_model_settings
       = Inr (ChatOpenAI ''sk-test'' ''custom-model'' 500)
   \<and> estimate_tokens mem_env custom_model_settings (ustr ''hello'') (ustr ''hi'') [ustr ''abc'']
       = 0"
proof -
  have p: "lower (llm_provider openai_settings) = ''openai''" by code_simp
  have p': "lower (llm_provider custom_model_settings) = ''openai''" by code_simp
  have i: "initialize_llm mem_env openai_settings = Inr (ChatOpenAI ''sk-test'' ''gpt-4'' 500)"
    by code_simp
  have i': "initialize_llm mem_env custom_model_settings
       = Inr (ChatOpenAI ''sk-test'' ''custom-model'' 500)"
    by code_simp
  have e: "encoding_for_model mem_env (llm_model (ChatOpenAI ''sk-test'' ''gpt-4'' 500))
             = Some (\<lambda>s. Some s)"
    by (simp add: mem_env_def mem_encoding_for_model_def)
  have e': "encoding_for_model mem_env (llm_model (ChatOpenAI ''sk-test'' ''custom-model'' 500))
             = None"
    by (simp add: mem_env_def mem_encoding_for_model_def)
  have n: "\<forall>s\<in>set (ustr ''hello'' # ustr ''hi'' # [ustr ''abc'']). (\<lambda>s. Some s) s \<noteq> None"
    by simp
  have v: "token_count (\<lambda>s. Some s) (ustr ''hello'') + token_count (\<lambda>s. Some s) (ustr ''hi'')
             + sum_list (map (token_count (\<lambda>s. Some s)) [ustr ''abc'']) + 100 = 110"
    by (simp add: token_count_def ustr_def)
  from estimate_tokens_openai [OF p i, of "\<lambda>s. Some s" "ustr ''hello''" "ustr ''hi''"
         "[ustr ''abc'']"] e n v
  have 1: "estimate_tokens mem_env openai_settings (ustr ''hello'') (ustr ''hi'') [ustr ''abc'']
             = 110"
    by simp
  from estimate_tokens_openai [OF p' i', of "\<lambda>s. Some s" "ustr ''hello''" "ustr ''hi''"
         "[ustr ''abc'']"] e'
  have 2: "estimate_tokens mem_env custom_model_settings (ustr ''hello'') (ustr ''hi'')
             [ustr ''abc''] = 0"
    by blast
  from p i 1 i' 2 show ?thesis by blast
qed

section \<open>The model name of a result\<close>

lemma query_model:
  "query env st self query_text session_id k s = Inr r \<Longrightarrow> model r = openai_model st"
  by (auto simp: query_def Let_def split: option.splits sum.splits prod.splits)

text \<open>
  Claim C3. The result of \<open>query\<close> carries \<open>settings.openai_model\<close> as its model name
  (\<open>query_model\<close>), whichever provider built the language model. Under the Groq
  provider the engine calls \<open>llama-3.1-70b-versatile\<close> and the result names \<open>gpt-4\<close>.
\<close>

theorem query_model_name_under_groq:
  "RAGQueryEngine_init mem_env groq_settings = Inr groq_engine
   \<and> llm_model (eng_llm groq_engine) = ''llama-3.1-70b-versatile''
   \<and> map_sum id model
       (query mem_env groq_settings groq_engine (ustr ''hello'') ''session-1'' 5 store_384)
     = Inr ''gpt-4''"
  by code_simp

end
